theory Spec2Isabelle
  imports Main
begin

section \<open>Python values and exceptions\<close>

text \<open>
  The program is one Streamlit script, \<^verbatim>\<open>app.py\<close>. Python strings are modelled as
  \<^typ>\<open>string\<close>, read as the UTF-8 bytes of the text: the only character the code
  inspects is the ASCII period, which never occurs inside a multi-byte sequence, so
  splitting and concatenation agree with Python's on code points.
  Every exception the script can meet is a value of \<open>error\<close>; a computation that may
  raise returns \<open>error + 'a\<close> with \<open>Inl\<close> for the raised exception.
\<close>

datatype error =
    IndexError
  | KeyError string
  | ValueError string
  | AttributeError string
  | External string

text \<open>\<^verbatim>\<open>str(e)\<close>, as interpolated by \<^verbatim>\<open>f"Error initializing database: {e}"\<close>.\<close>

fun str_error :: "error \<Rightarrow> string" where
  "str_error IndexError = ''list index out of range''"
| "str_error (KeyError k) = [CHR 0x27] @ k @ [CHR 0x27]"
| "str_error (ValueError m) = m"
| "str_error (AttributeError m) = m"
| "str_error (External m) = m"

text \<open>
  \<^verbatim>\<open>langchain_core.messages\<close>: the two message classes the script builds, each with its
  \<^verbatim>\<open>content\<close>.
\<close>

datatype message = HumanMessage string | AIMessage string

text \<open>The values that are put into a prompt's input dictionary.\<close>

datatype pyval = Str string | Messages "message list"

type_synonym vars = "string \<rightharpoonup> pyval"

section \<open>String operations of the Python library\<close>

text \<open>
  \<^verbatim>\<open>s.split(sep)\<close> for a separator of one character: the text is cut at every
  occurrence of the separator, and the result has one more element than there are
  occurrences (so it is never empty). \<open>acc\<close> is the segment read so far.
\<close>

fun split_from :: "'a \<Rightarrow> 'a list \<Rightarrow> 'a list \<Rightarrow> 'a list list" where
  "split_from sep acc [] = [acc]"
| "split_from sep acc (c # cs) =
     (if c = sep then acc # split_from sep [] cs else split_from sep (acc @ [c]) cs)"

definition str_split :: "'a list \<Rightarrow> 'a \<Rightarrow> 'a list list" where
  "str_split s sep = split_from sep [] s"

text \<open>\<^verbatim>\<open>xs[0]\<close>: raises \<^verbatim>\<open>IndexError\<close> on the empty list.\<close>

definition index0 :: "'a list \<Rightarrow> error + 'a" where
  "index0 xs = (case xs of [] \<Rightarrow> Inl IndexError | x # _ \<Rightarrow> Inr x)"

text \<open>\<^verbatim>\<open>sep.join(xs)\<close>.\<close>

fun str_join :: "string \<Rightarrow> string list \<Rightarrow> string" where
  "str_join sep [] = []"
| "str_join sep [x] = x"
| "str_join sep (x # y # ys) = x @ sep @ str_join sep (y # ys)"

text \<open>
  \<^verbatim>\<open>str(v)\<close> of a value interpolated into a template: a string is itself, a list is
  the bracketed, comma-separated \<^verbatim>\<open>repr\<close> of its elements. The \<^verbatim>\<open>repr\<close> of a message is
  the library's and is a parameter.
\<close>

fun str_of :: "(message \<Rightarrow> string) \<Rightarrow> pyval \<Rightarrow> string" where
  "str_of rp (Str s) = s"
| "str_of rp (Messages ms) = ''['' @ str_join '', '' (map rp ms) @ '']''"

subsection \<open>Template formatting\<close>

text \<open>
  \<^verbatim>\<open>ChatPromptTemplate.from_template(t)\<close> makes a prompt of one human message whose text
  is \<open>t\<close> formatted as a Python format string with the input dictionary as keyword
  arguments. Of \<^verbatim>\<open>str.format\<close> the part the two templates use is modelled: text is
  copied, \<^verbatim>\<open>{{\<close> and \<^verbatim>\<open>}}\<close> are the escaped braces, \<^verbatim>\<open>{name}\<close> is replaced by \<^verbatim>\<open>str\<close> of the
  value stored under \<open>name\<close>, a name that is not in the dictionary raises \<^verbatim>\<open>KeyError\<close>,
  and an unmatched brace raises \<^verbatim>\<open>ValueError\<close>. The second argument is \<open>None\<close> while text
  is copied and \<open>Some n\<close> inside a field whose name read so far is \<open>n\<close>.
\<close>

definition prepend :: "string \<Rightarrow> error + string \<Rightarrow> error + string" where
  "prepend s r = (case r of Inl e \<Rightarrow> Inl e | Inr t \<Rightarrow> Inr (s @ t))"

fun format_from :: "(message \<Rightarrow> string) \<Rightarrow> vars \<Rightarrow> string option \<Rightarrow> string \<Rightarrow> error + string" where
  "format_from rp kw None [] = Inr []"
| "format_from rp kw (Some n) [] = Inl (ValueError ''expected '}' before end of string'')"
| "format_from rp kw None (c # cs) =
     (if c = CHR ''{'' then
        (case cs of
           [] \<Rightarrow> Inl (ValueError ''Single '{' encountered in format string'')
         | d # ds \<Rightarrow>
             if d = CHR ''{'' then prepend ''{'' (format_from rp kw None ds)
             else format_from rp kw (Some []) cs)
      else if c = CHR ''}'' then
        (case cs of
           [] \<Rightarrow> Inl (ValueError ''Single '}' encountered in format string'')
         | d # ds \<Rightarrow>
             if d = CHR ''}'' then prepend ''}'' (format_from rp kw None ds)
             else Inl (ValueError ''Single '}' encountered in format string''))
      else prepend [c] (format_from rp kw None cs))"
| "format_from rp kw (Some n) (c # cs) =
     (if c = CHR ''}'' then
        (case kw n of
           None \<Rightarrow> Inl (KeyError n)
         | Some v \<Rightarrow> prepend (str_of rp v) (format_from rp kw None cs))
      else if c = CHR ''{'' then Inl (ValueError ''unexpected '{' in field name'')
      else format_from rp kw (Some (n @ [c])) cs)"

definition format_template :: "(message \<Rightarrow> string) \<Rightarrow> string \<Rightarrow> vars \<Rightarrow> error + string" where
  "format_template rp t kw = format_from rp kw None t"

section \<open>The two prompt templates\<close>

text \<open>
  The template of \<^verbatim>\<open>get_sql_chain\<close>, character for character: the text before the
  first \<^verbatim>\<open>{question}\<close>, the text between the two, and the text after the second.
\<close>

definition sql_template_head :: string where
  "sql_template_head = concat
    [''\<newline>'',
     ''        Database Name: employee_db\<newline>'',
     ''        Tables:\<newline>'',
     ''        employee_data:\<newline>'',
     ''        EmpID\<newline>'',
     ''        First Name\<newline>'',
     ''        Last Name\<newline>'',
     ''        Start Date\<newline>'',
     ''        Exit Date\<newline>'',
     ''        Title\<newline>'',
     ''        Supervisor\<newline>'',
     ''        Email\<newline>'',
     ''        Business Unit\<newline>'',
     ''        Employee Status\<newline>'',
     ''        Employee Type\<newline>'',
     ''        Pay Zone\<newline>'',
     ''        Employee Classification Type\<newline>'',
     ''        Termination Type\<newline>'',
     ''        Termination Description\<newline>'',
     ''        Department Type\<newline>'',
     ''        Division Description\<newline>'',
     ''        DOB (Date of Birth)\<newline>'',
     ''        State\<newline>'',
     ''        Job Function\<newline>'',
     ''        Gender\<newline>'',
     ''        Location\<newline>'',
     ''        Race (or) Ethnicity\<newline>'',
     ''        Marital Status\<newline>'',
     ''        Performance Score\<newline>'',
     ''        Current Employee Rating\<newline>'',
     ''\<newline>'',
     ''        employee_engagement_survey_data:\<newline>'',
     ''        Employee ID\<newline>'',
     ''        Survey Date\<newline>'',
     ''        Engagement Score\<newline>'',
     ''        Satisfaction Score\<newline>'',
     ''        Work-Life Balance Score\<newline>'',
     ''\<newline>'',
     ''        recruitment_data:\<newline>'',
     ''        Applicant ID\<newline>'',
     ''        Application Date\<newline>'',
     ''        First Name\<newline>'',
     ''        Last Name\<newline>'',
     ''        Gender\<newline>'',
     ''        Date of Birth\<newline>'',
     ''        Phone Number\<newline>'',
     ''        Email\<newline>'',
     ''        Address\<newline>'',
     ''        City\<newline>'',
     ''        State\<newline>'',
     ''        Zip Code\<newline>'',
     ''        Country\<newline>'',
     ''        Education Level\<newline>'',
     ''        Years of Experience\<newline>'',
     ''        Desired Salary\<newline>'',
     ''        Job Title\<newline>'',
     ''        Status\<newline>'',
     ''\<newline>'',
     ''        training_and_development_data:\<newline>'',
     ''        Employee ID\<newline>'',
     ''        Training Date\<newline>'',
     ''        Training Program Name\<newline>'',
     ''        Training Type\<newline>'',
     ''        Training Outcome\<newline>'',
     ''        Location\<newline>'',
     ''        Trainer\<newline>'',
     ''        Training Duration (Days)\<newline>'',
     ''        Training Cost\<newline>'',
     ''\<newline>'',
     ''        User's Question: '']"

definition sql_template_body :: string where
  "sql_template_body = concat
    [''\<newline>'',
     ''\<newline>'',
     ''        Instructions:\<newline>'',
     ''        Write a SQL query based on the user's question.\<newline>'',
     ''        Use the tables and fields mentioned above.\<newline>'',
     ''        Ensure that column names with spaces are enclosed in backticks (`).\<newline>'',
     ''        Provide only the SQL query and nothing else.\<newline>'',
     ''        Do not include additional text or formatting.\<newline>'',
     ''\<newline>'',
     ''        Examples:\<newline>'',
     ''        Question: What is the average engagement score?\<newline>'',
     ''        SQL Query: SELECT AVG(`Engagement Score`) AS avg_engagement_score FROM employee_engagement_survey_data;\<newline>'',
     ''\<newline>'',
     ''        Question: How has the average engagement score changed over time?\<newline>'',
     ''        SQL Query: SELECT `Survey Date`, AVG(`Engagement Score`) AS avg_engagement_score FROM employee_engagement_survey_data GROUP BY `Survey Date` ORDER BY `Survey Date`;\<newline>'',
     ''\<newline>'',
     ''        Question: Show the engagement scores for all employees surveyed in the last quarter.\<newline>'',
     ''        SQL Query: SELECT `Employee ID`, `Engagement Score` FROM employee_engagement_survey_data WHERE `Survey Date` >= DATE('now', '-3 month');\<newline>'',
     ''\<newline>'',
     ''        Question: What is the range of work-life balance scores?\<newline>'',
     ''        SQL Query: SELECT MIN(`Work-Life Balance Score`) AS min_score, MAX(`Work-Life Balance Score`) AS max_score FROM employee_engagement_survey_data;\<newline>'',
     ''\<newline>'',
     ''        Your Turn:\<newline>'',
     ''        Question: '']"

definition sql_template_tail :: string where
  "sql_template_tail = concat
    [''\<newline>'',
     ''        SQL Query:\<newline>'',
     ''    '']"

definition sql_template :: string where
  "sql_template =
     sql_template_head @ ''{question}'' @ sql_template_body @ ''{question}'' @ sql_template_tail"

text \<open>
  The template of \<^verbatim>\<open>get_response\<close>: the instruction text up to the opening
  \<^verbatim>\<open><SCHEMA>\<close> tag, then the five fields with the text between them.
\<close>

definition answer_template_intro :: string where
  "answer_template_intro = concat
    [''\<newline>'',
     ''        You are a data analyst at a company. You are interacting with a user who is asking you questions about the company's database.\<newline>'',
     ''        Based on the table schema below, question, sql query, and sql response, write a natural language response.\<newline>'',
     ''        <SCHEMA>'']"

definition answer_template :: string where
  "answer_template = concat
    [answer_template_intro, ''{schema}'', ''</SCHEMA>\<newline>'',
     ''    \<newline>'',
     ''        Conversation History: '', ''{chat_history}'', ''\<newline>'',
     ''        SQL Query: <SQL>'', ''{query}'', ''</SQL>\<newline>'',
     ''        User question: '', ''{question}'', ''\<newline>'',
     ''        SQL Response: '', ''{response}'', ''\<newline>'',
     ''    '']"

section \<open>The outside world\<close>

text \<open>
  The script talks to three collaborators that are not part of it: the hosted language
  model (\<^verbatim>\<open>ChatGroq\<close> followed by \<^verbatim>\<open>StrOutputParser\<close>), the database behind an
  \<^verbatim>\<open>SQLDatabase\<close> handle, and the Streamlit page. Every call to one of them is recorded,
  in order, in a log; what a collaborator answers may depend on the whole log so far, so
  nothing is assumed about two calls with the same arguments giving the same answer.
\<close>

type_synonym handle = nat

datatype call =
    FromUri string
  | GetTableInfo handle
  | Run handle string
  | Complete string
  | StError string
  | StSuccess string

record ext =
  llm_invoke :: "call list \<Rightarrow> string \<Rightarrow> error + string"
  db_from_uri :: "call list \<Rightarrow> string \<Rightarrow> error + handle"
  db_get_table_info :: "call list \<Rightarrow> handle \<Rightarrow> error + string"
  db_run :: "call list \<Rightarrow> handle \<Rightarrow> string \<Rightarrow> error + string"
  url_quote :: "string \<Rightarrow> string"
  msg_repr :: "message \<Rightarrow> string"

text \<open>
  A computation takes the log and returns its outcome with the extended log.
  \<open>perform\<close> makes one call, \<open>pure_io\<close> lifts a computation that calls nobody, and
  \<open>bind_io\<close> sequences: an exception of the first part skips the second.
\<close>

type_synonym 'a io = "call list \<Rightarrow> (error + 'a) \<times> call list"

definition perform :: "(call list \<Rightarrow> error + 'a) \<Rightarrow> call \<Rightarrow> 'a io" where
  "perform f c tr = (f tr, tr @ [c])"

definition pure_io :: "error + 'a \<Rightarrow> 'a io" where
  "pure_io r tr = (r, tr)"

definition bind_io :: "'a io \<Rightarrow> ('a \<Rightarrow> 'b io) \<Rightarrow> 'b io" where
  "bind_io m f tr =
     (case m tr of (Inl e, tr') \<Rightarrow> (Inl e, tr') | (Inr a, tr') \<Rightarrow> f a tr')"

text \<open>
  \<^verbatim>\<open>.assign(k1=f1, k2=f2)\<close> evaluates its steps through \<^verbatim>\<open>RunnableParallel\<close>: every
  step is submitted to an executor, and then the results are collected in the order of
  the keys. So both steps run even when one of them raises, and when both raise it is
  the exception of the first key that is raised. The log lists the calls in the order
  of submission.
\<close>

definition both_io :: "'a io \<Rightarrow> 'b io \<Rightarrow> ('a \<times> 'b) io" where
  "both_io m1 m2 tr =
     (case m1 tr of (r1, tr1) \<Rightarrow>
        (case m2 tr1 of (r2, tr2) \<Rightarrow>
           (case r1 of
              Inl e \<Rightarrow> (Inl e, tr2)
            | Inr a \<Rightarrow> (case r2 of Inl e \<Rightarrow> (Inl e, tr2) | Inr b \<Rightarrow> (Inr (a, b), tr2)))))"

section \<open>The pipeline\<close>

text \<open>
  \<^verbatim>\<open>init_database\<close>: builds the connection URI and opens it; any exception is caught,
  reported on the page, and turned into \<^verbatim>\<open>None\<close>.
\<close>

definition init_database ::
  "ext \<Rightarrow> string \<Rightarrow> string \<Rightarrow> string \<Rightarrow> string \<Rightarrow> string \<Rightarrow> call list \<Rightarrow> handle option \<times> call list" where
  "init_database x user password host port database tr =
     (let db_uri = ''mysql+mysqlconnector://'' @ user @ '':'' @ url_quote x password
                     @ ''@'' @ host @ '':'' @ port @ ''/'' @ database
      in case db_from_uri x tr db_uri of
           Inr db \<Rightarrow> (Some db, tr @ [FromUri db_uri])
         | Inl e \<Rightarrow>
             (None, tr @ [FromUri db_uri,
                          StError (''Error initializing database: '' @ str_error e)]))"

text \<open>
  \<^verbatim>\<open>get_sql_chain(db)\<close>, invoked on an input dictionary: \<^verbatim>\<open>assign(schema=get_schema)\<close>
  calls \<^verbatim>\<open>db.get_table_info()\<close> and stores the result under \<^verbatim>\<open>schema\<close>, the prompt is
  formatted from the extended dictionary, and the model is called on it.
\<close>

definition get_sql_chain :: "ext \<Rightarrow> handle \<Rightarrow> vars \<Rightarrow> string io" where
  "get_sql_chain x db input =
     bind_io (perform (\<lambda>tr. db_get_table_info x tr db) (GetTableInfo db)) (\<lambda>schema.
     bind_io (pure_io (format_template (msg_repr x) sql_template
                         (input(''schema'' \<mapsto> Str schema)))) (\<lambda>p.
     perform (\<lambda>tr. llm_invoke x tr p) (Complete p)))"

text \<open>
  The chain built in \<^verbatim>\<open>get_response\<close>, invoked on an input dictionary:
  \<^verbatim>\<open>assign(query=sql_chain)\<close>, then \<^verbatim>\<open>assign(schema=..., response=...)\<close>, then the
  prompt, the model and the output parser.
\<close>

definition chain_invoke :: "ext \<Rightarrow> handle \<Rightarrow> vars \<Rightarrow> string io" where
  "chain_invoke x db input =
     bind_io (get_sql_chain x db input) (\<lambda>query.
     bind_io (both_io (perform (\<lambda>tr. db_get_table_info x tr db) (GetTableInfo db))
                      (perform (\<lambda>tr. db_run x tr db query) (Run db query))) (\<lambda>(schema, response).
     bind_io (pure_io (format_template (msg_repr x) answer_template
                         (input(''query'' \<mapsto> Str query, ''schema'' \<mapsto> Str schema,
                                ''response'' \<mapsto> Str response)))) (\<lambda>p.
     perform (\<lambda>tr. llm_invoke x tr p) (Complete p))))"

text \<open>The clean-up of the raw response: \<^verbatim>\<open>raw_response.split(".")[0] + "."\<close>.\<close>

definition clean_response :: "string \<Rightarrow> error + string" where
  "clean_response raw_response =
     (case index0 (str_split raw_response (CHR ''.'')) of
        Inl e \<Rightarrow> Inl e
      | Inr seg \<Rightarrow> Inr (seg @ ''.''))"

definition invoke_input :: "string \<Rightarrow> message list \<Rightarrow> vars" where
  "invoke_input user_query chat_history =
     [''question'' \<mapsto> Str user_query, ''chat_history'' \<mapsto> Messages chat_history]"

definition get_response :: "ext \<Rightarrow> string \<Rightarrow> handle \<Rightarrow> message list \<Rightarrow> string io" where
  "get_response x user_query db chat_history =
     bind_io (chain_invoke x db (invoke_input user_query chat_history)) (\<lambda>raw_response.
     pure_io (clean_response raw_response))"

section \<open>The session and its two handlers\<close>

text \<open>
  \<^verbatim>\<open>st.session_state\<close>: the database handle, absent until a connection has succeeded,
  and the conversation history, which the script initialises with a greeting.
\<close>

record session =
  db :: "handle option"
  chat_history :: "message list"

definition initial_session :: session where
  "initial_session =
     \<lparr>db = None,
      chat_history =
        [AIMessage ''Hello! I'm a SQL assistant. Ask me anything about your database.'']\<rparr>"

text \<open>The body of \<^verbatim>\<open>if st.button("Connect")\<close>.\<close>

definition connect_handler ::
  "ext \<Rightarrow> session \<Rightarrow> string \<Rightarrow> string \<Rightarrow> string \<Rightarrow> string \<Rightarrow> string \<Rightarrow> call list
     \<Rightarrow> session \<times> call list" where
  "connect_handler x ss user password host port database tr =
     (case init_database x user password host port database tr of
        (Some new_db, tr') \<Rightarrow>
          (ss\<lparr>db := Some new_db, chat_history := []\<rparr>,
           tr' @ [StSuccess ''Connected to database!''])
      | (None, tr') \<Rightarrow>
          (ss, tr' @ [StError ''Failed to connect to database. Check your credentials.'']))"

text \<open>
  The body of \<^verbatim>\<open>if st.button("Send")\<close>. The human turn is appended first; reading
  \<^verbatim>\<open>st.session_state.db\<close> raises \<^verbatim>\<open>AttributeError\<close> when no connection was ever made;
  the assistant turn is appended only when \<^verbatim>\<open>get_response\<close> returns. The result is the
  exception that left the handler, if any, the session and the log.
\<close>

definition send_handler ::
  "ext \<Rightarrow> session \<Rightarrow> string \<Rightarrow> call list \<Rightarrow> error option \<times> session \<times> call list" where
  "send_handler x ss user_query tr =
     (let ss1 = ss\<lparr>chat_history := chat_history ss @ [HumanMessage user_query]\<rparr>
      in case db ss1 of
           None \<Rightarrow> (Some (AttributeError ''st.session_state has no attribute db''), ss1, tr)
         | Some d \<Rightarrow>
             (case get_response x user_query d (chat_history ss1) tr of
                (Inl e, tr') \<Rightarrow> (Some e, ss1, tr')
              | (Inr response, tr') \<Rightarrow>
                  (None, ss1\<lparr>chat_history := chat_history ss1 @ [AIMessage response]\<rparr>, tr')))"

section \<open>Vocabulary of the statements\<close>

text \<open>The two templates with their fields filled in, in the order of the fields.\<close>

definition sql_prompt :: "string \<Rightarrow> string" where
  "sql_prompt question =
     sql_template_head @ question @ sql_template_body @ question @ sql_template_tail"

definition answer_prompt :: "string \<Rightarrow> string \<Rightarrow> string \<Rightarrow> string \<Rightarrow> string \<Rightarrow> string" where
  "answer_prompt schema history query question response = concat
    [answer_template_intro, schema, ''</SCHEMA>\<newline>'',
     ''    \<newline>'',
     ''        Conversation History: '', history, ''\<newline>'',
     ''        SQL Query: <SQL>'', query, ''</SQL>\<newline>'',
     ''        User question: '', question, ''\<newline>'',
     ''        SQL Response: '', response, ''\<newline>'',
     ''    '']"

text \<open>The prompts sent to the language model, in order, as a log records them.\<close>

fun prompts :: "call list \<Rightarrow> string list" where
  "prompts [] = []"
| "prompts (Complete p # cs) = p # prompts cs"
| "prompts (c # cs) = prompts cs"

text \<open>Text without braces, which formatting copies.\<close>

definition plain :: "string \<Rightarrow> bool" where
  "plain s = list_all (\<lambda>c. c \<noteq> CHR ''{'' \<and> c \<noteq> CHR ''}'') s"

subsection \<open>Sample collaborators\<close>

text \<open>
  A small world to run the script in. The model answers the first prompt of a log with
  \<open>sql\<close> and every later one with \<open>answer\<close>; a handle's schema can be read on an empty
  log, every later reading gives \<open>later_info\<close>; running a query gives \<open>rows\<close>; and only
  the connection of the page's default settings can be opened.
\<close>

definition sample_repr :: "message \<Rightarrow> string" where
  "sample_repr m =
     (case m of
        HumanMessage c \<Rightarrow> ''HumanMessage(content='' @ c @ '')''
      | AIMessage c \<Rightarrow> ''AIMessage(content='' @ c @ '')'')"

definition sample_ext ::
  "(error + string) \<Rightarrow> (error + string) \<Rightarrow> (error + string) \<Rightarrow> (error + string) \<Rightarrow> ext" where
  "sample_ext sql later_info rows answer =
     \<lparr>llm_invoke = (\<lambda>tr p. if prompts tr = [] then sql else answer),
      db_from_uri = (\<lambda>tr uri.
         if uri = ''mysql+mysqlconnector://root:@localhost:3306/employee_db'' then Inr 1
         else Inl (External ''Access denied for user'')),
      db_get_table_info = (\<lambda>tr d.
         if tr = [] then
           (if d = 1 then Inr ''CREATE TABLE employee_data (EmpID INT)''
            else Inr ''CREATE TABLE orders (id INT)'')
         else later_info),
      db_run = (\<lambda>tr d q. rows),
      url_quote = (\<lambda>s. s),
      msg_repr = sample_repr\<rparr>"

definition working_ext :: "string \<Rightarrow> ext" where
  "working_ext answer =
     sample_ext (Inr ''SELECT COUNT(EmpID) FROM employee_data;'')
       (Inr ''CREATE TABLE employee_data (EmpID INT)'') (Inr ''[(3000,)]'') (Inr answer)"

section \<open>Splitting and the clean-up\<close>

lemma index0_split_from:
  "index0 (split_from sep acc s) = Inr (acc @ takeWhile (\<lambda>c. c \<noteq> sep) s)"
  by (induction s arbitrary: acc) (simp_all add: index0_def)

lemma split_from_not_Nil: "split_from sep acc s \<noteq> []"
  by (induction s arbitrary: acc) simp_all

lemma clean_response_eq:
  "clean_response raw = Inr (takeWhile (\<lambda>c. c \<noteq> CHR ''.'') raw @ ''.'')"
  by (simp add: clean_response_def str_split_def index0_split_from)

section \<open>Formatting the templates\<close>

lemma prepend_Inr: "prepend s (Inr t) = Inr (s @ t)"
  by (simp add: prepend_def)

lemma prepend_prepend: "prepend a (prepend b r) = prepend (a @ b) r"
  by (cases r) (simp_all add: prepend_def)

lemma format_from_text:
  "plain a \<Longrightarrow> format_from rp kw None (a @ s) = prepend a (format_from rp kw None s)"
proof (induction a)
  case Nil
  show ?case by (cases "format_from rp kw None s") (simp_all add: prepend_def)
next
  case (Cons c a)
  then show ?case by (simp add: plain_def prepend_prepend)
qed

lemma format_from_name:
  "plain n \<Longrightarrow> format_from rp kw (Some m) (n @ CHR ''}'' # s) =
     (case kw (m @ n) of None \<Rightarrow> Inl (KeyError (m @ n))
      | Some v \<Rightarrow> prepend (str_of rp v) (format_from rp kw None s))"
  by (induction n arbitrary: m) (simp_all add: plain_def split: option.splits)

lemma format_from_field:
  assumes "plain n" "n \<noteq> []" "kw n = Some v"
  shows "format_from rp kw None (CHR ''{'' # n @ CHR ''}'' # s) =
           prepend (str_of rp v) (format_from rp kw None s)"
proof -
  from assms obtain c cs where n: "n = c # cs" by (cases n) auto
  with assms(1) have "c \<noteq> CHR ''{''" by (simp add: plain_def)
  then have "format_from rp kw None (CHR ''{'' # n @ CHR ''}'' # s) =
        format_from rp kw (Some []) (n @ CHR ''}'' # s)"
    by (simp add: n)
  also have "\<dots> = prepend (str_of rp v) (format_from rp kw None s)"
    using format_from_name [OF assms(1), of rp kw "[]" s] assms(3) by simp
  finally show ?thesis .
qed

lemma plain_sql_head: "plain sql_template_head"
  by (simp add: plain_def sql_template_head_def)

lemma plain_sql_body: "plain sql_template_body"
  by (simp add: plain_def sql_template_body_def)

lemma plain_sql_tail: "plain sql_template_tail"
  by (simp add: plain_def sql_template_tail_def)

lemma format_sql_template:
  assumes "kw ''question'' = Some v"
  shows "format_template rp sql_template kw = Inr (sql_prompt (str_of rp v))"
proof -
  have q: "plain ''question''" "''question'' \<noteq> []" by (simp_all add: plain_def)
  have f: "format_from rp kw None (''{question}'' @ s) =
             prepend (str_of rp v) (format_from rp kw None s)" for s
    using format_from_field [of "''question''" kw v rp s] q assms by simp
  have t: "format_from rp kw None sql_template_tail = Inr sql_template_tail"
    using format_from_text [OF plain_sql_tail, of rp kw "[]"] by (simp add: prepend_Inr)
  show ?thesis
    unfolding format_template_def sql_template_def sql_prompt_def
    by (simp only: format_from_text [OF plain_sql_head] format_from_text [OF plain_sql_body]
          f t prepend_Inr append_assoc)
qed

lemma plain_answer_intro: "plain answer_template_intro"
  by (simp add: plain_def answer_template_intro_def)

lemma format_answer_template:
  assumes "kw ''schema'' = Some vs" "kw ''chat_history'' = Some vh" "kw ''query'' = Some vq"
    "kw ''question'' = Some vu" "kw ''response'' = Some vr"
  shows "format_template rp answer_template kw =
     Inr (answer_prompt (str_of rp vs) (str_of rp vh) (str_of rp vq) (str_of rp vu) (str_of rp vr))"
proof -
  have fld: "format_from rp kw None (CHR ''{'' # n @ CHR ''}'' # s) =
      prepend (str_of rp v) (format_from rp kw None s)"
    if "plain n" "n \<noteq> []" "kw n = Some v" for n v s
    using that by (rule format_from_field)
  have f1: "format_from rp kw None (''{schema}'' @ s) = prepend (str_of rp vs) (format_from rp kw None s)" for s
    using fld [of "''schema''" vs s] assms by (simp add: plain_def)
  have f2: "format_from rp kw None (''{chat_history}'' @ s) = prepend (str_of rp vh) (format_from rp kw None s)" for s
    using fld [of "''chat_history''" vh s] assms by (simp add: plain_def)
  have f3: "format_from rp kw None (''{query}'' @ s) = prepend (str_of rp vq) (format_from rp kw None s)" for s
    using fld [of "''query''" vq s] assms by (simp add: plain_def)
  have f4: "format_from rp kw None (''{question}'' @ s) = prepend (str_of rp vu) (format_from rp kw None s)" for s
    using fld [of "''question''" vu s] assms by (simp add: plain_def)
  have f5: "format_from rp kw None (''{response}'' @ s) = prepend (str_of rp vr) (format_from rp kw None s)" for s
    using fld [of "''response''" vr s] assms by (simp add: plain_def)
  have copy: "format_from rp kw None (a @ s) = prepend a (format_from rp kw None s)" if "plain a" for a s
    using that by (rule format_from_text)
  have t1: "format_from rp kw None (''</SCHEMA>\<newline>'' @ ''    \<newline>'' @ ''        Conversation History: '' @ s)
      = prepend (''</SCHEMA>\<newline>'' @ ''    \<newline>'' @ ''        Conversation History: '') (format_from rp kw None s)" for s
    using copy [of "''</SCHEMA>\<newline>'' @ ''    \<newline>'' @ ''        Conversation History: ''" s]
    by (simp add: plain_def)
  have t2: "format_from rp kw None (''\<newline>'' @ ''        SQL Query: <SQL>'' @ s)
      = prepend (''\<newline>'' @ ''        SQL Query: <SQL>'') (format_from rp kw None s)" for s
    using copy [of "''\<newline>'' @ ''        SQL Query: <SQL>''" s] by (simp add: plain_def)
  have t3: "format_from rp kw None (''</SQL>\<newline>'' @ ''        User question: '' @ s)
      = prepend (''</SQL>\<newline>'' @ ''        User question: '') (format_from rp kw None s)" for s
    using copy [of "''</SQL>\<newline>'' @ ''        User question: ''" s] by (simp add: plain_def)
  have t4: "format_from rp kw None (''\<newline>'' @ ''        SQL Response: '' @ s)
      = prepend (''\<newline>'' @ ''        SQL Response: '') (format_from rp kw None s)" for s
    using copy [of "''\<newline>'' @ ''        SQL Response: ''" s] by (simp add: plain_def)
  have t5: "format_from rp kw None (''\<newline>'' @ ''    '') = Inr (''\<newline>'' @ ''    '')"
    using copy [of "''\<newline>'' @ ''    ''" "[]"] by (simp add: plain_def prepend_def)
  have t0: "format_from rp kw None (answer_template_intro @ s) = prepend answer_template_intro (format_from rp kw None s)" for s
    using copy [OF plain_answer_intro] .
  have "format_template rp answer_template kw =
     format_from rp kw None (answer_template_intro @ ''{schema}'' @ ''</SCHEMA>\<newline>'' @ ''    \<newline>'' @ ''        Conversation History: '' @ ''{chat_history}''
       @ ''\<newline>'' @ ''        SQL Query: <SQL>'' @ ''{query}'' @ ''</SQL>\<newline>'' @ ''        User question: '' @ ''{question}''
       @ ''\<newline>'' @ ''        SQL Response: '' @ ''{response}'' @ ''\<newline>'' @ ''    '')"
    unfolding format_template_def answer_template_def by (simp only: concat.simps append_Nil2)
  also have "\<dots> = Inr (answer_template_intro @ str_of rp vs @ (''</SCHEMA>\<newline>'' @ ''    \<newline>'' @ ''        Conversation History: '') @ str_of rp vh
       @ (''\<newline>'' @ ''        SQL Query: <SQL>'') @ str_of rp vq @ (''</SQL>\<newline>'' @ ''        User question: '') @ str_of rp vu
       @ (''\<newline>'' @ ''        SQL Response: '') @ str_of rp vr @ (''\<newline>'' @ ''    ''))"
    by (simp only: t0 f1 t1 f2 t2 f3 t3 f4 t4 f5 t5 prepend_Inr)
  also have "\<dots> = Inr (answer_prompt (str_of rp vs) (str_of rp vh) (str_of rp vq) (str_of rp vu) (str_of rp vr))"
    unfolding answer_prompt_def by (simp only: concat.simps append_Nil2 append_assoc)
  finally show ?thesis .
qed

section \<open>Running the chains\<close>

lemmas io_defs = bind_io_def perform_def pure_io_def both_io_def

lemma get_sql_chain_eq:
  assumes "input ''question'' = Some (Str q)"
  shows "get_sql_chain x d input tr =
     (case db_get_table_info x tr d of
        Inl e \<Rightarrow> (Inl e, tr @ [GetTableInfo d])
      | Inr s \<Rightarrow>
          (llm_invoke x (tr @ [GetTableInfo d]) (sql_prompt q),
           tr @ [GetTableInfo d, Complete (sql_prompt q)]))"
proof (cases "db_get_table_info x tr d")
  case (Inl e)
  then show ?thesis by (simp add: get_sql_chain_def io_defs)
next
  case (Inr s)
  have "format_template (msg_repr x) sql_template (input(''schema'' \<mapsto> Str s)) =
      Inr (sql_prompt (str_of (msg_repr x) (Str q)))"
    by (rule format_sql_template) (simp add: assms)
  with Inr show ?thesis by (simp add: get_sql_chain_def io_defs)
qed

lemma chain_invoke_eq:
  "chain_invoke x d (invoke_input q h) tr =
     (case db_get_table_info x tr d of
        Inl e \<Rightarrow> (Inl e, tr @ [GetTableInfo d])
      | Inr s0 \<Rightarrow>
         (case llm_invoke x (tr @ [GetTableInfo d]) (sql_prompt q) of
            Inl e \<Rightarrow> (Inl e, tr @ [GetTableInfo d, Complete (sql_prompt q)])
          | Inr sql \<Rightarrow>
             (case db_get_table_info x (tr @ [GetTableInfo d, Complete (sql_prompt q)]) d of
                Inl e \<Rightarrow>
                  (Inl e, tr @ [GetTableInfo d, Complete (sql_prompt q), GetTableInfo d, Run d sql])
              | Inr s \<Rightarrow>
                 (case db_run x (tr @ [GetTableInfo d, Complete (sql_prompt q), GetTableInfo d]) d sql of
                    Inl e \<Rightarrow>
                      (Inl e, tr @ [GetTableInfo d, Complete (sql_prompt q), GetTableInfo d, Run d sql])
                  | Inr r \<Rightarrow>
                      (llm_invoke x
                         (tr @ [GetTableInfo d, Complete (sql_prompt q), GetTableInfo d, Run d sql])
                         (answer_prompt s (str_of (msg_repr x) (Messages h)) sql q r),
                       tr @ [GetTableInfo d, Complete (sql_prompt q), GetTableInfo d, Run d sql,
                             Complete (answer_prompt s (str_of (msg_repr x) (Messages h)) sql q r)])))))"
proof -
  have q: "invoke_input q h ''question'' = Some (Str q)"
    by (simp add: invoke_input_def)
  have fmt: "format_template (msg_repr x) answer_template
        ((invoke_input q h)(''query'' \<mapsto> Str sql, ''schema'' \<mapsto> Str s, ''response'' \<mapsto> Str r)) =
      Inr (answer_prompt s (str_of (msg_repr x) (Messages h)) sql q r)" for sql s r
    using format_answer_template [of "(invoke_input q h)(''query'' \<mapsto> Str sql, ''schema'' \<mapsto> Str s, ''response'' \<mapsto> Str r)"
        "Str s" "Messages h" "Str sql" "Str q" "Str r" "msg_repr x"]
    by (simp add: invoke_input_def)
  have g: "get_sql_chain x d (invoke_input q h) tr =
     (case db_get_table_info x tr d of
        Inl e \<Rightarrow> (Inl e, tr @ [GetTableInfo d])
      | Inr s \<Rightarrow>
          (llm_invoke x (tr @ [GetTableInfo d]) (sql_prompt q),
           tr @ [GetTableInfo d, Complete (sql_prompt q)]))"
    using q by (rule get_sql_chain_eq)
  show ?thesis
  proof (cases "db_get_table_info x tr d")
    case Inl
    then show ?thesis by (simp add: chain_invoke_def g io_defs)
  next
    case g1: (Inr s0)
    show ?thesis
    proof (cases "llm_invoke x (tr @ [GetTableInfo d]) (sql_prompt q)")
      case Inl
      with g1 show ?thesis by (simp add: chain_invoke_def g io_defs)
    next
      case l1: (Inr sql)
      show ?thesis
      proof (cases "db_get_table_info x (tr @ [GetTableInfo d, Complete (sql_prompt q)]) d")
        case Inl
        with g1 l1 show ?thesis
          by (cases "db_run x (tr @ [GetTableInfo d, Complete (sql_prompt q), GetTableInfo d]) d sql")
            (simp_all add: chain_invoke_def g io_defs)
      next
        case g2: (Inr s)
        show ?thesis
        proof (cases "db_run x (tr @ [GetTableInfo d, Complete (sql_prompt q), GetTableInfo d]) d sql")
          case Inl
          with g1 l1 g2 show ?thesis by (simp add: chain_invoke_def g io_defs)
        next
          case (Inr r)
          with g1 l1 g2 show ?thesis
            by (simp add: chain_invoke_def g io_defs fmt del: str_of.simps)
        qed
      qed
    qed
  qed
qed

lemma sample_ext_sel:
  "llm_invoke (sample_ext sql li rows ans) tr p = (if prompts tr = [] then sql else ans)"
  "db_get_table_info (sample_ext sql li rows ans) tr d =
     (if tr = [] then
        (if d = 1 then Inr ''CREATE TABLE employee_data (EmpID INT)''
         else Inr ''CREATE TABLE orders (id INT)'')
      else li)"
  "db_run (sample_ext sql li rows ans) tr d qu = rows"
  "db_from_uri (sample_ext sql li rows ans) tr uri =
     (if uri = ''mysql+mysqlconnector://root:@localhost:3306/employee_db'' then Inr 1
      else Inl (External ''Access denied for user''))"
  "msg_repr (sample_ext sql li rows ans) = sample_repr"
  "url_quote (sample_ext sql li rows ans) s = s"
  by (simp_all add: sample_ext_def)

lemma working_chain:
  "chain_invoke (working_ext a) d (invoke_input q h) [] =
     (Inr a,
      [GetTableInfo d, Complete (sql_prompt q), GetTableInfo d,
       Run d ''SELECT COUNT(EmpID) FROM employee_data;'',
       Complete (answer_prompt ''CREATE TABLE employee_data (EmpID INT)''
                   (str_of sample_repr (Messages h)) ''SELECT COUNT(EmpID) FROM employee_data;'' q
                   ''[(3000,)]'')])"
  by (simp add: chain_invoke_eq working_ext_def sample_ext_sel del: str_of.simps)

lemma get_response_eq:
  "get_response x q d h tr =
     (case chain_invoke x d (invoke_input q h) tr of
        (Inl e, tr') \<Rightarrow> (Inl e, tr')
      | (Inr raw, tr') \<Rightarrow> (Inr (takeWhile (\<lambda>c. c \<noteq> CHR ''.'') raw @ ''.''), tr'))"
  by (simp add: get_response_def bind_io_def pure_io_def clean_response_eq
      split: prod.splits sum.splits)

lemma send_handler_eq:
  assumes "db ss = Some d"
  shows "send_handler x ss q tr =
     (case get_response x q d (chat_history ss @ [HumanMessage q]) tr of
        (Inl e, tr') \<Rightarrow> (Some e, ss\<lparr>chat_history := chat_history ss @ [HumanMessage q]\<rparr>, tr')
      | (Inr a, tr') \<Rightarrow>
          (None, ss\<lparr>chat_history := chat_history ss @ [HumanMessage q, AIMessage a]\<rparr>, tr'))"
  using assms by (simp add: send_handler_def Let_def split: prod.splits sum.splits)

lemma prompts_append: "prompts (xs @ ys) = prompts xs @ prompts ys"
  by (induction xs rule: prompts.induct) simp_all

lemma takeWhile_period_split:
  assumes "CHR ''.'' \<in> set raw"
  shows "raw = takeWhile (\<lambda>c. c \<noteq> CHR ''.'') raw @ ''.'' @ tl (dropWhile (\<lambda>c. c \<noteq> CHR ''.'') raw)"
proof -
  from assms have "dropWhile (\<lambda>c. c \<noteq> CHR ''.'') raw \<noteq> []" by simp
  moreover from this have "hd (dropWhile (\<lambda>c. c \<noteq> CHR ''.'') raw) = CHR ''.''"
    using hd_dropWhile [of "\<lambda>c. c \<noteq> CHR ''.''" raw] by simp
  ultimately have "dropWhile (\<lambda>c. c \<noteq> CHR ''.'') raw = ''.'' @ tl (dropWhile (\<lambda>c. c \<noteq> CHR ''.'') raw)"
    by (cases "dropWhile (\<lambda>c. c \<noteq> CHR ''.'') raw") auto
  then show ?thesis
    using takeWhile_dropWhile_id [of "\<lambda>c. c \<noteq> CHR ''.''" raw] by metis
qed

lemma count_takeWhile_period: "count_list (takeWhile (\<lambda>c. c \<noteq> CHR ''.'') s) (CHR ''.'') = 0"
  by (induction s) simp_all

section \<open>The answer returned by \<^verbatim>\<open>get_response\<close>\<close>

text \<open>
  C1. Whenever the chain returns a raw response that contains a period, the answer of
  \<^verbatim>\<open>get_response\<close> is the prefix of the raw response up to and including its first
  period: the raw response is \<open>seg @ ''.'' @ rest\<close> with no period in \<open>seg\<close>, and the
  answer is \<open>seg @ ''.''\<close>. Nothing guards the truncation: it is applied to whatever the
  chain returned, and the log is the chain's.
\<close>

theorem get_response_first_period:
  assumes "fst (chain_invoke x d (invoke_input q h) tr) = Inr raw"
    and "CHR ''.'' \<in> set raw"
  shows "\<exists>seg rest. raw = seg @ ''.'' @ rest \<and> CHR ''.'' \<notin> set seg \<and>
           get_response x q d h tr =
             (Inr (seg @ ''.''), snd (chain_invoke x d (invoke_input q h) tr))"
proof -
  let ?seg = "takeWhile (\<lambda>c. c \<noteq> CHR ''.'') raw"
  have "raw = ?seg @ ''.'' @ tl (dropWhile (\<lambda>c. c \<noteq> CHR ''.'') raw)"
    using assms(2) by (rule takeWhile_period_split)
  moreover have "CHR ''.'' \<notin> set ?seg"
    by (auto dest: set_takeWhileD)
  moreover have "get_response x q d h tr =
      (Inr (?seg @ ''.''), snd (chain_invoke x d (invoke_input q h) tr))"
    using assms(1) by (cases "chain_invoke x d (invoke_input q h) tr") (simp add: get_response_eq)
  ultimately show ?thesis by blast
qed

theorem get_response_first_period_witness:
  "fst (chain_invoke (working_ext ''There are 3000 employees. That is 3.5 per team.'') 1
          (invoke_input ''How many employees are there?'' []) [])
     = Inr ''There are 3000 employees. That is 3.5 per team.''
   \<and> CHR ''.'' \<in> set ''There are 3000 employees. That is 3.5 per team.''
   \<and> (\<exists>seg rest. ''There are 3000 employees. That is 3.5 per team.'' = seg @ ''.'' @ rest
         \<and> CHR ''.'' \<notin> set seg
         \<and> get_response (working_ext ''There are 3000 employees. That is 3.5 per team.'')
             ''How many employees are there?'' 1 [] [] =
           (Inr (seg @ ''.''),
            snd (chain_invoke (working_ext ''There are 3000 employees. That is 3.5 per team.'') 1
                  (invoke_input ''How many employees are there?'' []) [])))"
proof -
  have a: "fst (chain_invoke (working_ext ''There are 3000 employees. That is 3.5 per team.'') 1
          (invoke_input ''How many employees are there?'' []) [])
     = Inr ''There are 3000 employees. That is 3.5 per team.''"
    by (simp add: working_chain)
  have b: "CHR ''.'' \<in> set ''There are 3000 employees. That is 3.5 per team.''"
    by simp
  from a b get_response_first_period [OF a b] show ?thesis by blast
qed

text \<open>
  C4. Whenever the chain returns a raw response without a period, the indexing after
  the split is defined (the first segment is the whole response), and the answer is the
  whole raw response followed by one period.
\<close>

theorem get_response_no_period:
  assumes "fst (chain_invoke x d (invoke_input q h) tr) = Inr raw"
    and "CHR ''.'' \<notin> set raw"
  shows "index0 (str_split raw (CHR ''.'')) = Inr raw \<and>
         get_response x q d h tr =
           (Inr (raw @ ''.''), snd (chain_invoke x d (invoke_input q h) tr))"
proof -
  from assms(2) have t: "takeWhile (\<lambda>c. c \<noteq> CHR ''.'') raw = raw"
    by auto
  have "index0 (str_split raw (CHR ''.'')) = Inr raw"
    by (simp add: str_split_def index0_split_from t)
  moreover have "get_response x q d h tr =
      (Inr (raw @ ''.''), snd (chain_invoke x d (invoke_input q h) tr))"
    using assms(1) t
    by (cases "chain_invoke x d (invoke_input q h) tr") (simp add: get_response_eq)
  ultimately show ?thesis by simp
qed

theorem get_response_no_period_witness:
  "fst (chain_invoke (working_ext ''3000 employees'') 1
          (invoke_input ''How many employees are there?'' []) []) = Inr ''3000 employees''
   \<and> CHR ''.'' \<notin> set ''3000 employees''
   \<and> index0 (str_split ''3000 employees'' (CHR ''.'')) = Inr ''3000 employees''
   \<and> get_response (working_ext ''3000 employees'') ''How many employees are there?'' 1 [] [] =
       (Inr (''3000 employees'' @ ''.''),
        snd (chain_invoke (working_ext ''3000 employees'') 1
              (invoke_input ''How many employees are there?'' []) []))"
proof -
  have a: "fst (chain_invoke (working_ext ''3000 employees'') 1
          (invoke_input ''How many employees are there?'' []) []) = Inr ''3000 employees''"
    by (simp add: working_chain)
  have b: "CHR ''.'' \<notin> set ''3000 employees''"
    by simp
  from a b get_response_no_period [OF a b] show ?thesis by blast
qed

text \<open>
  C5. The truncation is idempotent on every text that contains a period: it returns a
  text on which it returns the same text again.
\<close>

theorem clean_response_idempotent:
  assumes "CHR ''.'' \<in> set s"
  shows "\<exists>t. clean_response s = Inr t \<and> clean_response t = Inr t"
proof -
  let ?seg = "takeWhile (\<lambda>c. c \<noteq> CHR ''.'') s"
  have "\<forall>c \<in> set ?seg. c \<noteq> CHR ''.''"
    by (auto dest: set_takeWhileD)
  then have "takeWhile (\<lambda>c. c \<noteq> CHR ''.'') (?seg @ ''.'') = ?seg"
    by simp
  then have "clean_response (?seg @ ''.'') = Inr (?seg @ ''.'')"
    by (simp only: clean_response_eq)
  then show ?thesis
    by (simp add: clean_response_eq)
qed

theorem clean_response_idempotent_witness:
  "CHR ''.'' \<in> set ''The mean is 3.5 points. It rose.''
   \<and> (\<exists>t. clean_response ''The mean is 3.5 points. It rose.'' = Inr t \<and> clean_response t = Inr t)"
proof -
  have a: "CHR ''.'' \<in> set ''The mean is 3.5 points. It rose.''" by simp
  from a clean_response_idempotent [OF a] show ?thesis by blast
qed

text \<open>
  C10. Whatever raw response the chain returns, the answer of \<^verbatim>\<open>get_response\<close> contains
  exactly one period, which is its last character; when the raw response is empty or
  begins with a period the answer is the single character \<open>''.''\<close>.
\<close>

theorem get_response_single_period:
  assumes "fst (chain_invoke x d (invoke_input q h) tr) = Inr raw"
  shows "\<exists>a. fst (get_response x q d h tr) = Inr a
            \<and> count_list a (CHR ''.'') = 1
            \<and> a \<noteq> [] \<and> last a = CHR ''.''
            \<and> (raw = [] \<or> take 1 raw = ''.'' \<longrightarrow> a = ''.'')"
proof -
  let ?a = "takeWhile (\<lambda>c. c \<noteq> CHR ''.'') raw @ ''.''"
  have g: "fst (get_response x q d h tr) = Inr ?a"
    using assms by (cases "chain_invoke x d (invoke_input q h) tr") (simp add: get_response_eq)
  have c: "count_list ?a (CHR ''.'') = 1"
    by (simp add: count_takeWhile_period)
  have e: "raw = [] \<or> take 1 raw = ''.'' \<longrightarrow> ?a = ''.''"
    by (cases raw) auto
  from g c e show ?thesis by simp
qed

theorem get_response_single_period_witness:
  "fst (chain_invoke (working_ext ''.75 is the average score. It is high.'') 1
          (invoke_input ''What is the average engagement score?'' []) [])
     = Inr ''.75 is the average score. It is high.''
   \<and> take 1 ''.75 is the average score. It is high.'' = ''.''
   \<and> (\<exists>a. fst (get_response (working_ext ''.75 is the average score. It is high.'')
              ''What is the average engagement score?'' 1 [] []) = Inr a
            \<and> count_list a (CHR ''.'') = 1
            \<and> a \<noteq> [] \<and> last a = CHR ''.''
            \<and> a = ''.'')"
proof -
  have a: "fst (chain_invoke (working_ext ''.75 is the average score. It is high.'') 1
          (invoke_input ''What is the average engagement score?'' []) [])
     = Inr ''.75 is the average score. It is high.''"
    by (simp add: working_chain)
  have b: "take 1 ''.75 is the average score. It is high.'' = ''.''"
    by simp
  from a b get_response_single_period [OF a] show ?thesis by blast
qed

section \<open>The synthesis prompt\<close>

text \<open>
  C8. For every question text, formatting the synthesis template puts the question,
  unchanged, into both \<^verbatim>\<open>{question}\<close> slots and changes nothing else, and that text is the
  prompt the synthesis chain sends to the model (once the schema lookup that precedes
  it has returned). The question in the witness contains braces: they are not read as
  fields.
\<close>

theorem get_sql_chain_question_verbatim:
  assumes "input ''question'' = Some (Str q)"
    and "db_get_table_info x tr d = Inr s"
  shows "format_template (msg_repr x) sql_template (input(''schema'' \<mapsto> Str s)) =
           Inr (sql_template_head @ q @ sql_template_body @ q @ sql_template_tail)
       \<and> get_sql_chain x d input tr =
           (llm_invoke x (tr @ [GetTableInfo d])
              (sql_template_head @ q @ sql_template_body @ q @ sql_template_tail),
            tr @ [GetTableInfo d,
                  Complete (sql_template_head @ q @ sql_template_body @ q @ sql_template_tail)])"
proof -
  have "(input(''schema'' \<mapsto> Str s)) ''question'' = Some (Str q)"
    using assms(1) by simp
  then have "format_template (msg_repr x) sql_template (input(''schema'' \<mapsto> Str s)) =
      Inr (sql_prompt (str_of (msg_repr x) (Str q)))"
    by (rule format_sql_template)
  moreover have "get_sql_chain x d input tr =
     (case db_get_table_info x tr d of
        Inl e \<Rightarrow> (Inl e, tr @ [GetTableInfo d])
      | Inr s \<Rightarrow>
          (llm_invoke x (tr @ [GetTableInfo d]) (sql_prompt q),
           tr @ [GetTableInfo d, Complete (sql_prompt q)]))"
    using assms(1) by (rule get_sql_chain_eq)
  ultimately show ?thesis using assms(2) by (simp add: sql_prompt_def)
qed

theorem get_sql_chain_question_verbatim_witness:
  "invoke_input ''Who earns {most}?'' [] ''question'' = Some (Str ''Who earns {most}?'')
   \<and> db_get_table_info (working_ext ''Nobody.'') [] 1 =
        Inr ''CREATE TABLE employee_data (EmpID INT)''
   \<and> format_template (msg_repr (working_ext ''Nobody.'')) sql_template
        ((invoke_input ''Who earns {most}?'' [])
           (''schema'' \<mapsto> Str ''CREATE TABLE employee_data (EmpID INT)'')) =
        Inr (sql_template_head @ ''Who earns {most}?'' @ sql_template_body
               @ ''Who earns {most}?'' @ sql_template_tail)
   \<and> get_sql_chain (working_ext ''Nobody.'') 1 (invoke_input ''Who earns {most}?'' []) [] =
        (llm_invoke (working_ext ''Nobody.'') ([] @ [GetTableInfo 1])
           (sql_template_head @ ''Who earns {most}?'' @ sql_template_body
              @ ''Who earns {most}?'' @ sql_template_tail),
         [] @ [GetTableInfo 1,
               Complete (sql_template_head @ ''Who earns {most}?'' @ sql_template_body
                           @ ''Who earns {most}?'' @ sql_template_tail)])"
proof -
  have a: "invoke_input ''Who earns {most}?'' [] ''question'' = Some (Str ''Who earns {most}?'')"
    by (simp add: invoke_input_def)
  have b: "db_get_table_info (working_ext ''Nobody.'') [] 1 =
        Inr ''CREATE TABLE employee_data (EmpID INT)''"
    by (simp add: working_ext_def sample_ext_sel)
  from a b
    get_sql_chain_question_verbatim [where input = "invoke_input ''Who earns {most}?'' []"
      and q = "''Who earns {most}?''" and x = "working_ext ''Nobody.''" and tr = "[]" and d = 1
      and s = "''CREATE TABLE employee_data (EmpID INT)''"]
  show ?thesis by blast
qed

section \<open>The handlers\<close>

text \<open>
  C3. Pressing Connect: when \<^verbatim>\<open>init_database\<close> returns a handle, the session's handle is
  that handle and the history is empty; when it returns none, the session is the one
  before. The handler has no other outcome, so a new handle is never seen with the old
  history, nor the old handle with a cleared history.
\<close>

theorem connect_handler_all_or_nothing:
  "(fst (init_database x user password host port database tr) = Some new_db \<longrightarrow>
      fst (connect_handler x ss user password host port database tr) =
        ss\<lparr>db := Some new_db, chat_history := []\<rparr>)
   \<and> (fst (init_database x user password host port database tr) = None \<longrightarrow>
      fst (connect_handler x ss user password host port database tr) = ss)"
  by (cases "init_database x user password host port database tr")
     (auto simp: connect_handler_def split: option.splits)

theorem connect_handler_all_or_nothing_witness:
  "fst (init_database (working_ext ''Ok.'') ''root'' '''' ''localhost'' ''3306'' ''employee_db'' [])
     = Some 1
   \<and> fst (connect_handler (working_ext ''Ok.'') initial_session
            ''root'' '''' ''localhost'' ''3306'' ''employee_db'' []) =
       initial_session\<lparr>db := Some 1, chat_history := []\<rparr>
   \<and> fst (init_database (working_ext ''Ok.'') ''root'' ''guess'' ''localhost'' ''3306'' ''employee_db'' [])
     = None
   \<and> fst (connect_handler (working_ext ''Ok.'') initial_session
            ''root'' ''guess'' ''localhost'' ''3306'' ''employee_db'' []) = initial_session"
proof -
  have a: "fst (init_database (working_ext ''Ok.'') ''root'' '''' ''localhost'' ''3306'' ''employee_db'' [])
     = Some 1"
    by (simp add: init_database_def working_ext_def sample_ext_sel)
  have b: "fst (init_database (working_ext ''Ok.'') ''root'' ''guess'' ''localhost'' ''3306'' ''employee_db'' [])
     = None"
    by (simp add: init_database_def working_ext_def sample_ext_sel)
  from a b
    connect_handler_all_or_nothing [of "working_ext ''Ok.''" "''root''" "''''" "''localhost''"
      "''3306''" "''employee_db''" "[]" 1 initial_session]
    connect_handler_all_or_nothing [of "working_ext ''Ok.''" "''root''" "''guess''" "''localhost''"
      "''3306''" "''employee_db''" "[]" 1 initial_session]
  show ?thesis by blast
qed

text \<open>
  C2, as stated, fails: a question whose query the database rejects leaves the handler
  by the exception, after the human turn was appended and before the assistant turn is.
  The history has grown by one entry.
\<close>

theorem send_handler_dangling_question:
  "fst (send_handler
          (sample_ext (Inr ''SELECT COUNT(EmpID) FROM employes;'')
             (Inr ''CREATE TABLE employee_data (EmpID INT)'')
             (Inl (External ''Table employee_db.employes does not exist'')) (Inr ''Ok.''))
          \<lparr>db = Some 1, chat_history = []\<rparr> ''How many employees are there?'' [])
     = Some (External ''Table employee_db.employes does not exist'')
   \<and> chat_history (fst (snd (send_handler
          (sample_ext (Inr ''SELECT COUNT(EmpID) FROM employes;'')
             (Inr ''CREATE TABLE employee_data (EmpID INT)'')
             (Inl (External ''Table employee_db.employes does not exist'')) (Inr ''Ok.''))
          \<lparr>db = Some 1, chat_history = []\<rparr> ''How many employees are there?'' [])))
     = [HumanMessage ''How many employees are there?'']"
  by (simp add: send_handler_eq get_response_eq chain_invoke_eq sample_ext_sel)

text \<open>
  C2, amended. For every submitted question whose turn completes (\<^verbatim>\<open>get_response\<close>
  returns an answer), the history grows by exactly two entries: the human turn with the
  question, then the assistant turn with the answer that \<^verbatim>\<open>get_response\<close> returned for
  the history extended by the human turn; the entries before them are unchanged.
\<close>

theorem send_handler_two_turns:
  assumes "fst (send_handler x ss q tr) = None"
  shows "\<exists>d a. db ss = Some d
           \<and> fst (get_response x q d (chat_history ss @ [HumanMessage q]) tr) = Inr a
           \<and> chat_history (fst (snd (send_handler x ss q tr))) =
               chat_history ss @ [HumanMessage q, AIMessage a]"
proof (cases "db ss")
  case None
  with assms show ?thesis by (simp add: send_handler_def)
next
  case (Some d)
  obtain r tr' where g: "get_response x q d (chat_history ss @ [HumanMessage q]) tr = (r, tr')"
    by (cases "get_response x q d (chat_history ss @ [HumanMessage q]) tr")
  with assms Some obtain a where "r = Inr a"
    by (cases r) (simp_all add: send_handler_eq)
  with g Some show ?thesis by (simp add: send_handler_eq)
qed

theorem send_handler_two_turns_witness:
  "fst (send_handler (working_ext ''There are 3000 employees. Many.'')
          \<lparr>db = Some 1, chat_history = []\<rparr> ''How many employees are there?'' []) = None
   \<and> (\<exists>d a. db \<lparr>db = Some 1, chat_history = []\<rparr> = Some d
         \<and> fst (get_response (working_ext ''There are 3000 employees. Many.'')
                  ''How many employees are there?'' d
                  (chat_history \<lparr>db = Some 1, chat_history = []\<rparr>
                     @ [HumanMessage ''How many employees are there?'']) []) = Inr a
         \<and> chat_history (fst (snd (send_handler (working_ext ''There are 3000 employees. Many.'')
              \<lparr>db = Some 1, chat_history = []\<rparr> ''How many employees are there?'' []))) =
             chat_history \<lparr>db = Some 1, chat_history = []\<rparr>
               @ [HumanMessage ''How many employees are there?'', AIMessage a])"
proof -
  have a: "fst (send_handler (working_ext ''There are 3000 employees. Many.'')
          \<lparr>db = Some 1, chat_history = []\<rparr> ''How many employees are there?'' []) = None"
    by (simp add: send_handler_eq get_response_eq working_chain)
  from a send_handler_two_turns [OF a] show ?thesis by blast
qed

section \<open>What reaches the model\<close>

lemma chain_invoke_prompts:
  "prompts (snd (chain_invoke x d (invoke_input q h) tr)) = prompts tr
   \<or> prompts (snd (chain_invoke x d (invoke_input q h) tr)) = prompts tr @ [sql_prompt q]
   \<or> (\<exists>s sql r. prompts (snd (chain_invoke x d (invoke_input q h) tr)) =
         prompts tr @ [sql_prompt q, answer_prompt s (str_of (msg_repr x) (Messages h)) sql q r])"
  by (auto simp add: chain_invoke_eq prompts_append simp del: str_of.simps split: sum.splits)

lemma send_handler_log:
  assumes "db ss = Some d"
  shows "snd (snd (send_handler x ss q tr)) =
           snd (chain_invoke x d (invoke_input q (chat_history ss @ [HumanMessage q])) tr)"
  using assms
  by (simp add: send_handler_eq get_response_eq split: prod.splits sum.splits)

text \<open>
  C6. The synthesis prompt does not depend on the connection: for two handles whose
  schema descriptions differ, the synthesis chain sends the model the same prompt, the
  template filled with the question alone. The composer's prompt, by contrast, carries
  between its \<^verbatim>\<open>SCHEMA\<close> tags the description that the connected handle returns when the
  composer's step asks for it.
\<close>

theorem synthesis_prompt_ignores_connection:
  assumes "db_get_table_info x tr d1 = Inr s1"
    and "db_get_table_info x tr d2 = Inr s2"
    and "s1 \<noteq> s2"
  shows "prompts (snd (get_sql_chain x d1 (invoke_input q h) tr)) = prompts tr @ [sql_prompt q]
       \<and> prompts (snd (get_sql_chain x d2 (invoke_input q h) tr)) = prompts tr @ [sql_prompt q]
       \<and> (llm_invoke x (tr @ [GetTableInfo d1]) (sql_prompt q) = Inr sql
            \<and> db_get_table_info x (tr @ [GetTableInfo d1, Complete (sql_prompt q)]) d1 = Inr s
            \<and> db_run x (tr @ [GetTableInfo d1, Complete (sql_prompt q), GetTableInfo d1]) d1 sql
                 = Inr r
          \<longrightarrow> prompts (snd (chain_invoke x d1 (invoke_input q h) tr)) =
                prompts tr @ [sql_prompt q,
                  answer_prompt s (str_of (msg_repr x) (Messages h)) sql q r])"
proof -
  have q: "invoke_input q h ''question'' = Some (Str q)"
    by (simp add: invoke_input_def)
  have g: "get_sql_chain x d (invoke_input q h) tr =
     (case db_get_table_info x tr d of
        Inl e \<Rightarrow> (Inl e, tr @ [GetTableInfo d])
      | Inr s \<Rightarrow>
          (llm_invoke x (tr @ [GetTableInfo d]) (sql_prompt q),
           tr @ [GetTableInfo d, Complete (sql_prompt q)]))" for d
    using q by (rule get_sql_chain_eq)
  have "prompts (snd (get_sql_chain x d1 (invoke_input q h) tr)) = prompts tr @ [sql_prompt q]"
    using assms(1) by (simp add: g prompts_append)
  moreover
  have "prompts (snd (get_sql_chain x d2 (invoke_input q h) tr)) = prompts tr @ [sql_prompt q]"
    using assms(2) by (simp add: g prompts_append)
  moreover
  have "prompts (snd (chain_invoke x d1 (invoke_input q h) tr)) =
          prompts tr @ [sql_prompt q, answer_prompt s (str_of (msg_repr x) (Messages h)) sql q r]"
    if "llm_invoke x (tr @ [GetTableInfo d1]) (sql_prompt q) = Inr sql"
      and "db_get_table_info x (tr @ [GetTableInfo d1, Complete (sql_prompt q)]) d1 = Inr s"
      and "db_run x (tr @ [GetTableInfo d1, Complete (sql_prompt q), GetTableInfo d1]) d1 sql = Inr r"
    using that assms(1) by (simp add: chain_invoke_eq prompts_append del: str_of.simps)
  ultimately show ?thesis by blast
qed

theorem synthesis_prompt_ignores_connection_witness:
  "db_get_table_info (working_ext ''Ok.'') [] 1 = Inr ''CREATE TABLE employee_data (EmpID INT)''
   \<and> db_get_table_info (working_ext ''Ok.'') [] 2 = Inr ''CREATE TABLE orders (id INT)''
   \<and> ''CREATE TABLE employee_data (EmpID INT)'' \<noteq> ''CREATE TABLE orders (id INT)''
   \<and> llm_invoke (working_ext ''Ok.'') ([] @ [GetTableInfo 1]) (sql_prompt ''How many?'')
        = Inr ''SELECT COUNT(EmpID) FROM employee_data;''
   \<and> db_get_table_info (working_ext ''Ok.'')
        ([] @ [GetTableInfo 1, Complete (sql_prompt ''How many?'')]) 1
        = Inr ''CREATE TABLE employee_data (EmpID INT)''
   \<and> db_run (working_ext ''Ok.'')
        ([] @ [GetTableInfo 1, Complete (sql_prompt ''How many?''), GetTableInfo 1]) 1
        ''SELECT COUNT(EmpID) FROM employee_data;'' = Inr ''[(3000,)]''
   \<and> prompts (snd (get_sql_chain (working_ext ''Ok.'') 1 (invoke_input ''How many?'' []) []))
        = prompts [] @ [sql_prompt ''How many?'']
   \<and> prompts (snd (get_sql_chain (working_ext ''Ok.'') 2 (invoke_input ''How many?'' []) []))
        = prompts [] @ [sql_prompt ''How many?'']
   \<and> prompts (snd (chain_invoke (working_ext ''Ok.'') 1 (invoke_input ''How many?'' []) []))
        = prompts [] @ [sql_prompt ''How many?'',
            answer_prompt ''CREATE TABLE employee_data (EmpID INT)''
              (str_of (msg_repr (working_ext ''Ok.'')) (Messages []))
              ''SELECT COUNT(EmpID) FROM employee_data;'' ''How many?'' ''[(3000,)]'']"
proof -
  have a: "db_get_table_info (working_ext ''Ok.'') [] 1 = Inr ''CREATE TABLE employee_data (EmpID INT)''"
    by (simp add: working_ext_def sample_ext_sel)
  have b: "db_get_table_info (working_ext ''Ok.'') [] 2 = Inr ''CREATE TABLE orders (id INT)''"
    by (simp add: working_ext_def sample_ext_sel)
  have c: "''CREATE TABLE employee_data (EmpID INT)'' \<noteq> ''CREATE TABLE orders (id INT)''"
    by simp
  have l: "llm_invoke (working_ext ''Ok.'') ([] @ [GetTableInfo 1]) (sql_prompt ''How many?'')
        = Inr ''SELECT COUNT(EmpID) FROM employee_data;''"
    by (simp add: working_ext_def sample_ext_sel)
  have g: "db_get_table_info (working_ext ''Ok.'')
        ([] @ [GetTableInfo 1, Complete (sql_prompt ''How many?'')]) 1
        = Inr ''CREATE TABLE employee_data (EmpID INT)''"
    by (simp add: working_ext_def sample_ext_sel)
  have r: "db_run (working_ext ''Ok.'')
        ([] @ [GetTableInfo 1, Complete (sql_prompt ''How many?''), GetTableInfo 1]) 1
        ''SELECT COUNT(EmpID) FROM employee_data;'' = Inr ''[(3000,)]''"
    by (simp add: working_ext_def sample_ext_sel)
  from a b c l g r
    synthesis_prompt_ignores_connection [OF a b c, of "''How many?''" "[]"
      "''SELECT COUNT(EmpID) FROM employee_data;''" "''CREATE TABLE employee_data (EmpID INT)''"
      "''[(3000,)]''"]
  show ?thesis by blast
qed

text \<open>
  C9, as stated, fails: in a session with one earlier exchange, the history written
  into the composer's prompt ends with the human turn of the question being answered;
  the prompt differs from the one that the earlier turns alone would give.
\<close>

theorem send_handler_prompt_has_question_turn:
  "prompts (snd (snd (send_handler (working_ext ''There are 3000 employees.'')
      \<lparr>db = Some 1, chat_history = [HumanMessage ''Hi'', AIMessage ''Hello.'']\<rparr>
      ''How many employees are there?'' [])))
     = [sql_prompt ''How many employees are there?'',
        answer_prompt ''CREATE TABLE employee_data (EmpID INT)''
          (str_of sample_repr (Messages [HumanMessage ''Hi'', AIMessage ''Hello.'',
                                         HumanMessage ''How many employees are there?'']))
          ''SELECT COUNT(EmpID) FROM employee_data;'' ''How many employees are there?'' ''[(3000,)]'']
   \<and> answer_prompt ''CREATE TABLE employee_data (EmpID INT)''
          (str_of sample_repr (Messages [HumanMessage ''Hi'', AIMessage ''Hello.'',
                                         HumanMessage ''How many employees are there?'']))
          ''SELECT COUNT(EmpID) FROM employee_data;'' ''How many employees are there?'' ''[(3000,)]''
     \<noteq> answer_prompt ''CREATE TABLE employee_data (EmpID INT)''
          (str_of sample_repr (Messages [HumanMessage ''Hi'', AIMessage ''Hello.'']))
          ''SELECT COUNT(EmpID) FROM employee_data;'' ''How many employees are there?'' ''[(3000,)]''"
proof -
  have "prompts (snd (snd (send_handler (working_ext ''There are 3000 employees.'')
      \<lparr>db = Some 1, chat_history = [HumanMessage ''Hi'', AIMessage ''Hello.'']\<rparr>
      ''How many employees are there?'' [])))
     = [sql_prompt ''How many employees are there?'',
        answer_prompt ''CREATE TABLE employee_data (EmpID INT)''
          (str_of sample_repr (Messages [HumanMessage ''Hi'', AIMessage ''Hello.'',
                                         HumanMessage ''How many employees are there?'']))
          ''SELECT COUNT(EmpID) FROM employee_data;'' ''How many employees are there?'' ''[(3000,)]'']"
    by (simp add: send_handler_log working_chain del: str_of.simps)
  moreover
  have "answer_prompt ''CREATE TABLE employee_data (EmpID INT)''
          (str_of sample_repr (Messages [HumanMessage ''Hi'', AIMessage ''Hello.'',
                                         HumanMessage ''How many employees are there?'']))
          ''SELECT COUNT(EmpID) FROM employee_data;'' ''How many employees are there?'' ''[(3000,)]''
     \<noteq> answer_prompt ''CREATE TABLE employee_data (EmpID INT)''
          (str_of sample_repr (Messages [HumanMessage ''Hi'', AIMessage ''Hello.'']))
          ''SELECT COUNT(EmpID) FROM employee_data;'' ''How many employees are there?'' ''[(3000,)]''"
    by (simp add: answer_prompt_def sample_repr_def)
  ultimately show ?thesis by simp
qed

text \<open>
  C9, amended. Whenever a turn reaches the composer (the turn sends its second prompt),
  the history serialised into the composer's prompt is the session history as it stands
  when \<^verbatim>\<open>get_response\<close> is called: the turns exchanged before the current question followed by
  the human turn of the question being answered.
\<close>

theorem send_handler_prompt_history:
  assumes "db ss = Some d"
    and "length (prompts (snd (snd (send_handler x ss q tr)))) = length (prompts tr) + 2"
  shows "\<exists>s sql r. prompts (snd (snd (send_handler x ss q tr))) =
           prompts tr @ [sql_prompt q,
             answer_prompt s
               (str_of (msg_repr x) (Messages (chat_history ss @ [HumanMessage q]))) sql q r]"
proof -
  let ?h = "chat_history ss @ [HumanMessage q]"
  let ?ps = "prompts (snd (chain_invoke x d (invoke_input q ?h) tr))"
  have l: "snd (snd (send_handler x ss q tr)) = snd (chain_invoke x d (invoke_input q ?h) tr)"
    using assms(1) by (rule send_handler_log)
  from assms(2) have n: "length ?ps = length (prompts tr) + 2"
    by (simp only: l)
  from chain_invoke_prompts [of x d q ?h tr] n
  have "\<exists>s sql r. ?ps = prompts tr @ [sql_prompt q,
      answer_prompt s (str_of (msg_repr x) (Messages ?h)) sql q r]"
    by (elim disjE) simp_all
  then show ?thesis by (simp only: l)
qed

theorem send_handler_prompt_history_witness:
  "db \<lparr>db = Some 1, chat_history = [HumanMessage ''Hi'', AIMessage ''Hello.'']\<rparr> = Some 1
   \<and> length (prompts (snd (snd (send_handler (working_ext ''There are 3000 employees.'')
        \<lparr>db = Some 1, chat_history = [HumanMessage ''Hi'', AIMessage ''Hello.'']\<rparr>
        ''How many employees are there?'' [])))) = length (prompts []) + 2
   \<and> (\<exists>s sql r. prompts (snd (snd (send_handler (working_ext ''There are 3000 employees.'')
        \<lparr>db = Some 1, chat_history = [HumanMessage ''Hi'', AIMessage ''Hello.'']\<rparr>
        ''How many employees are there?'' []))) =
         prompts [] @ [sql_prompt ''How many employees are there?'',
           answer_prompt s
             (str_of (msg_repr (working_ext ''There are 3000 employees.''))
                (Messages (chat_history
                    \<lparr>db = Some 1, chat_history = [HumanMessage ''Hi'', AIMessage ''Hello.'']\<rparr>
                   @ [HumanMessage ''How many employees are there?''])))
             sql ''How many employees are there?'' r])"
proof -
  have a: "db \<lparr>db = Some 1, chat_history = [HumanMessage ''Hi'', AIMessage ''Hello.'']\<rparr> = Some 1"
    by simp
  have b: "length (prompts (snd (snd (send_handler (working_ext ''There are 3000 employees.'')
        \<lparr>db = Some 1, chat_history = [HumanMessage ''Hi'', AIMessage ''Hello.'']\<rparr>
        ''How many employees are there?'' [])))) = length (prompts []) + 2"
    by (simp add: send_handler_log working_chain del: str_of.simps)
  from a b send_handler_prompt_history [OF a b] show ?thesis by blast
qed

section \<open>Exceptions in the pipeline\<close>

text \<open>
  C7, as stated, fails in one corner: the query and the schema lookup of the composer's
  step are evaluated side by side, and when both raise it is the exception of the schema
  lookup that leaves \<^verbatim>\<open>get_response\<close>; the exception that \<^verbatim>\<open>db.run\<close> raised is dropped.
\<close>

theorem get_response_schema_error_wins:
  "db_run
     (sample_ext (Inr ''SELECT COUNT(EmpID) FROM employes;'')
        (Inl (External ''Lost connection to MySQL server''))
        (Inl (External ''Table employee_db.employes does not exist'')) (Inr ''Ok.''))
     [GetTableInfo 1, Complete (sql_prompt ''How many employees are there?''), GetTableInfo 1] 1
     ''SELECT COUNT(EmpID) FROM employes;''
     = Inl (External ''Table employee_db.employes does not exist'')
   \<and> get_response
     (sample_ext (Inr ''SELECT COUNT(EmpID) FROM employes;'')
        (Inl (External ''Lost connection to MySQL server''))
        (Inl (External ''Table employee_db.employes does not exist'')) (Inr ''Ok.''))
     ''How many employees are there?'' 1 [] []
     = (Inl (External ''Lost connection to MySQL server''),
        [GetTableInfo 1, Complete (sql_prompt ''How many employees are there?''), GetTableInfo 1,
         Run 1 ''SELECT COUNT(EmpID) FROM employes;''])"
  by (simp add: get_response_eq chain_invoke_eq sample_ext_sel)

text \<open>
  C7, amended. \<^verbatim>\<open>get_response\<close> has no error handling: an exception raised by either
  model call reaches the caller unchanged, and so does an exception raised by \<^verbatim>\<open>db.run\<close>
  when the schema lookup evaluated beside it returns. Nothing is retried or translated:
  the call that raised is the last one in the log (for \<^verbatim>\<open>db.run\<close>, the last one submitted).
\<close>

theorem get_response_propagates:
  assumes "db_get_table_info x tr d = Inr s0"
  shows "(llm_invoke x (tr @ [GetTableInfo d]) (sql_prompt q) = Inl e \<longrightarrow>
            get_response x q d h tr = (Inl e, tr @ [GetTableInfo d, Complete (sql_prompt q)]))
       \<and> (llm_invoke x (tr @ [GetTableInfo d]) (sql_prompt q) = Inr sql
            \<and> db_get_table_info x (tr @ [GetTableInfo d, Complete (sql_prompt q)]) d = Inr s
            \<and> db_run x (tr @ [GetTableInfo d, Complete (sql_prompt q), GetTableInfo d]) d sql
                 = Inl e
          \<longrightarrow> get_response x q d h tr =
                (Inl e, tr @ [GetTableInfo d, Complete (sql_prompt q), GetTableInfo d, Run d sql]))
       \<and> (llm_invoke x (tr @ [GetTableInfo d]) (sql_prompt q) = Inr sql
            \<and> db_get_table_info x (tr @ [GetTableInfo d, Complete (sql_prompt q)]) d = Inr s
            \<and> db_run x (tr @ [GetTableInfo d, Complete (sql_prompt q), GetTableInfo d]) d sql
                 = Inr r
            \<and> llm_invoke x
                 (tr @ [GetTableInfo d, Complete (sql_prompt q), GetTableInfo d, Run d sql])
                 (answer_prompt s (str_of (msg_repr x) (Messages h)) sql q r) = Inl e
          \<longrightarrow> get_response x q d h tr =
                (Inl e, tr @ [GetTableInfo d, Complete (sql_prompt q), GetTableInfo d, Run d sql,
                   Complete (answer_prompt s (str_of (msg_repr x) (Messages h)) sql q r)]))"
  using assms by (simp add: get_response_eq chain_invoke_eq del: str_of.simps)

theorem get_response_propagates_witness:
  "db_get_table_info
     (sample_ext (Inl (External ''Rate limit reached'')) (Inr ''CREATE TABLE t (c INT)'')
        (Inr ''[(1,)]'') (Inr ''Ok.'')) [] 1
     = Inr ''CREATE TABLE employee_data (EmpID INT)''
   \<and> llm_invoke
     (sample_ext (Inl (External ''Rate limit reached'')) (Inr ''CREATE TABLE t (c INT)'')
        (Inr ''[(1,)]'') (Inr ''Ok.'')) ([] @ [GetTableInfo 1]) (sql_prompt ''How many?'')
     = Inl (External ''Rate limit reached'')
   \<and> get_response
     (sample_ext (Inl (External ''Rate limit reached'')) (Inr ''CREATE TABLE t (c INT)'')
        (Inr ''[(1,)]'') (Inr ''Ok.'')) ''How many?'' 1 [] []
     = (Inl (External ''Rate limit reached''),
        [] @ [GetTableInfo 1, Complete (sql_prompt ''How many?'')])
   \<and> db_get_table_info
     (sample_ext (Inr ''SELECT 1;'') (Inr ''CREATE TABLE t (c INT)'')
        (Inl (External ''Unknown column'')) (Inr ''Ok.'')) [] 1
     = Inr ''CREATE TABLE employee_data (EmpID INT)''
   \<and> llm_invoke
     (sample_ext (Inr ''SELECT 1;'') (Inr ''CREATE TABLE t (c INT)'')
        (Inl (External ''Unknown column'')) (Inr ''Ok.'')) ([] @ [GetTableInfo 1])
        (sql_prompt ''How many?'')
     = Inr ''SELECT 1;''
   \<and> db_get_table_info
     (sample_ext (Inr ''SELECT 1;'') (Inr ''CREATE TABLE t (c INT)'')
        (Inl (External ''Unknown column'')) (Inr ''Ok.''))
        ([] @ [GetTableInfo 1, Complete (sql_prompt ''How many?'')]) 1
     = Inr ''CREATE TABLE t (c INT)''
   \<and> db_run
     (sample_ext (Inr ''SELECT 1;'') (Inr ''CREATE TABLE t (c INT)'')
        (Inl (External ''Unknown column'')) (Inr ''Ok.''))
        ([] @ [GetTableInfo 1, Complete (sql_prompt ''How many?''), GetTableInfo 1]) 1 ''SELECT 1;''
     = Inl (External ''Unknown column'')
   \<and> get_response
     (sample_ext (Inr ''SELECT 1;'') (Inr ''CREATE TABLE t (c INT)'')
        (Inl (External ''Unknown column'')) (Inr ''Ok.'')) ''How many?'' 1 [] []
     = (Inl (External ''Unknown column''),
        [] @ [GetTableInfo 1, Complete (sql_prompt ''How many?''), GetTableInfo 1,
              Run 1 ''SELECT 1;''])
   \<and> db_get_table_info
     (sample_ext (Inr ''SELECT 1;'') (Inr ''CREATE TABLE t (c INT)'')
        (Inr ''[(1,)]'') (Inl (External ''Request timed out''))) [] 1
     = Inr ''CREATE TABLE employee_data (EmpID INT)''
   \<and> llm_invoke
     (sample_ext (Inr ''SELECT 1;'') (Inr ''CREATE TABLE t (c INT)'')
        (Inr ''[(1,)]'') (Inl (External ''Request timed out'')))
        ([] @ [GetTableInfo 1, Complete (sql_prompt ''How many?''), GetTableInfo 1,
               Run 1 ''SELECT 1;''])
        (answer_prompt ''CREATE TABLE t (c INT)''
           (str_of (msg_repr (sample_ext (Inr ''SELECT 1;'') (Inr ''CREATE TABLE t (c INT)'')
              (Inr ''[(1,)]'') (Inl (External ''Request timed out'')))) (Messages []))
           ''SELECT 1;'' ''How many?'' ''[(1,)]'')
     = Inl (External ''Request timed out'')
   \<and> get_response
     (sample_ext (Inr ''SELECT 1;'') (Inr ''CREATE TABLE t (c INT)'')
        (Inr ''[(1,)]'') (Inl (External ''Request timed out''))) ''How many?'' 1 [] []
     = (Inl (External ''Request timed out''),
        [] @ [GetTableInfo 1, Complete (sql_prompt ''How many?''), GetTableInfo 1,
              Run 1 ''SELECT 1;'',
              Complete (answer_prompt ''CREATE TABLE t (c INT)''
                (str_of (msg_repr (sample_ext (Inr ''SELECT 1;'') (Inr ''CREATE TABLE t (c INT)'')
                   (Inr ''[(1,)]'') (Inl (External ''Request timed out'')))) (Messages []))
                ''SELECT 1;'' ''How many?'' ''[(1,)]'')])"
proof -
  let ?W1 = "sample_ext (Inl (External ''Rate limit reached'')) (Inr ''CREATE TABLE t (c INT)'')
        (Inr ''[(1,)]'') (Inr ''Ok.'')"
  let ?W2 = "sample_ext (Inr ''SELECT 1;'') (Inr ''CREATE TABLE t (c INT)'')
        (Inl (External ''Unknown column'')) (Inr ''Ok.'')"
  let ?W3 = "sample_ext (Inr ''SELECT 1;'') (Inr ''CREATE TABLE t (c INT)'')
        (Inr ''[(1,)]'') (Inl (External ''Request timed out''))"
  let ?p = "sql_prompt ''How many?''"
  have g1: "db_get_table_info ?W1 [] 1 = Inr ''CREATE TABLE employee_data (EmpID INT)''"
    by (simp add: sample_ext_sel)
  have l1: "llm_invoke ?W1 ([] @ [GetTableInfo 1]) ?p = Inl (External ''Rate limit reached'')"
    by (simp add: sample_ext_sel)
  have g2: "db_get_table_info ?W2 [] 1 = Inr ''CREATE TABLE employee_data (EmpID INT)''"
    by (simp add: sample_ext_sel)
  have l2: "llm_invoke ?W2 ([] @ [GetTableInfo 1]) ?p = Inr ''SELECT 1;''"
    by (simp add: sample_ext_sel)
  have i2: "db_get_table_info ?W2 ([] @ [GetTableInfo 1, Complete ?p]) 1
      = Inr ''CREATE TABLE t (c INT)''"
    by (simp add: sample_ext_sel)
  have r2: "db_run ?W2 ([] @ [GetTableInfo 1, Complete ?p, GetTableInfo 1]) 1 ''SELECT 1;''
      = Inl (External ''Unknown column'')"
    by (simp add: sample_ext_sel)
  have g3: "db_get_table_info ?W3 [] 1 = Inr ''CREATE TABLE employee_data (EmpID INT)''"
    by (simp add: sample_ext_sel)
  have l3: "llm_invoke ?W3 ([] @ [GetTableInfo 1]) ?p = Inr ''SELECT 1;''"
    by (simp add: sample_ext_sel)
  have i3: "db_get_table_info ?W3 ([] @ [GetTableInfo 1, Complete ?p]) 1
      = Inr ''CREATE TABLE t (c INT)''"
    by (simp add: sample_ext_sel)
  have r3: "db_run ?W3 ([] @ [GetTableInfo 1, Complete ?p, GetTableInfo 1]) 1 ''SELECT 1;''
      = Inr ''[(1,)]''"
    by (simp add: sample_ext_sel)
  have c3: "llm_invoke ?W3
        ([] @ [GetTableInfo 1, Complete ?p, GetTableInfo 1, Run 1 ''SELECT 1;''])
        (answer_prompt ''CREATE TABLE t (c INT)'' (str_of (msg_repr ?W3) (Messages []))
           ''SELECT 1;'' ''How many?'' ''[(1,)]'')
     = Inl (External ''Request timed out'')"
    by (simp add: sample_ext_sel)
  note t1 = get_response_propagates [OF g1, of "''How many?''" "External ''Rate limit reached''" "[]"]
  note t2 = get_response_propagates [OF g2, of "''How many?''" "External ''Unknown column''" "[]"
      "''SELECT 1;''" "''CREATE TABLE t (c INT)''"]
  note t3 = get_response_propagates [OF g3, of "''How many?''" "External ''Request timed out''" "[]"
      "''SELECT 1;''" "''CREATE TABLE t (c INT)''" "''[(1,)]''"]
  from l1 t1 have a: "get_response ?W1 ''How many?'' 1 [] [] =
      (Inl (External ''Rate limit reached''), [] @ [GetTableInfo 1, Complete ?p])"
    by blast
  from l2 i2 r2 t2 have b: "get_response ?W2 ''How many?'' 1 [] [] =
      (Inl (External ''Unknown column''),
        [] @ [GetTableInfo 1, Complete ?p, GetTableInfo 1, Run 1 ''SELECT 1;''])"
    by blast
  from l3 i3 r3 c3 t3 have c: "get_response ?W3 ''How many?'' 1 [] [] =
      (Inl (External ''Request timed out''),
        [] @ [GetTableInfo 1, Complete ?p, GetTableInfo 1, Run 1 ''SELECT 1;'',
              Complete (answer_prompt ''CREATE TABLE t (c INT)''
                (str_of (msg_repr ?W3) (Messages [])) ''SELECT 1;'' ''How many?'' ''[(1,)]'')])"
    by blast
  from g1 l1 a g2 l2 i2 r2 b g3 c3 c show ?thesis by blast
qed

end
